theory Spec2Isabelle
  imports Complex_Main "HOL-Library.Sublist"
begin

section \<open>JavaScript values\<close>

text \<open>
  The edge function \<open>predict-price\<close> works on values that come out of \<open>JSON.parse\<close>
  (the request body, the body of the chat-completion response, the text the model
  wrote) and on the object it builds itself on the fallback path.

  Numbers held in such values are the integers plus \<open>NaN\<close>; a JSON number with a
  fraction or an exponent, the infinities and negative zero are outside the model.
  Intermediate products (\<open>area * baseRate * cityMultiplier\<close>, \<open>basePrice * 0.85\<close>) are
  exact rationals, \<open>None\<close> standing for \<open>NaN\<close>: the rounding error of binary64 is
  not modelled. Strings are ASCII text.
\<close>

datatype number = NaN | Fin int

datatype jsval =
    JUndefined
  | JNull
  | JBool bool
  | JNum number
  | JStr string
  | JArr "jsval list"
  | JObj "(string \<times> jsval) list"

text \<open>
  What a \<open>throw\<close> carries. \<open>TypeError\<close> and \<open>SyntaxError\<close> are raised by the
  runtime (their message text is the engine's), \<open>NetworkFailure\<close> is a rejected
  \<open>fetch\<close>, \<open>Error m\<close> is \<open>new Error(m)\<close> of the handler itself.
\<close>

datatype error = TypeError | SyntaxError | NetworkFailure | Error string

text \<open>ToBoolean, as used by \<open>!x\<close>, \<open>x || y\<close> and \<open>x ? y : z\<close>.\<close>

fun truthy :: "jsval \<Rightarrow> bool" where
  "truthy JUndefined = False"
| "truthy JNull = False"
| "truthy (JBool b) = b"
| "truthy (JNum NaN) = False"
| "truthy (JNum (Fin i)) = (i \<noteq> 0)"
| "truthy (JStr s) = (s \<noteq> [])"
| "truthy (JArr xs) = True"
| "truthy (JObj kvs) = True"

text \<open>\<open>x || y\<close> on values.\<close>

definition or_else :: "jsval \<Rightarrow> jsval \<Rightarrow> jsval" where
  "or_else x y = (if truthy x then x else y)"

subsection \<open>ToString\<close>

definition digit_char :: "nat \<Rightarrow> char" where
  "digit_char d = ''0123456789'' ! d"

fun digits :: "nat \<Rightarrow> string" where
  "digits n = (if n < 10 then [digit_char n] else digits (n div 10) @ [digit_char (n mod 10)])"

declare digits.simps [simp del]

fun number_to_string :: "number \<Rightarrow> string" where
  "number_to_string NaN = ''NaN''"
| "number_to_string (Fin i) = (if i < 0 then CHR ''-'' # digits (nat (- i)) else digits (nat i))"

fun join :: "string \<Rightarrow> string list \<Rightarrow> string" where
  "join sep [] = []"
| "join sep [x] = x"
| "join sep (x # y # ys) = x @ sep @ join sep (y # ys)"

text \<open>
  An array prints as its elements joined by a comma, \<open>null\<close> and \<open>undefined\<close>
  elements as the empty string; a plain object prints as \<open>[object Object]\<close>.
\<close>

fun to_string :: "jsval \<Rightarrow> string" where
  "to_string JUndefined = ''undefined''"
| "to_string JNull = ''null''"
| "to_string (JBool b) = (if b then ''true'' else ''false'')"
| "to_string (JNum n) = number_to_string n"
| "to_string (JStr s) = s"
| "to_string (JArr xs) =
     join '','' (map (\<lambda>x. if x = JUndefined \<or> x = JNull then [] else to_string x) xs)"
| "to_string (JObj kvs) = ''[object Object]''"

text \<open>\<open>Array.prototype.join(sep)\<close>.\<close>

definition array_join :: "string \<Rightarrow> jsval list \<Rightarrow> string" where
  "array_join sep xs =
     join sep (map (\<lambda>x. if x = JUndefined \<or> x = JNull then [] else to_string x) xs)"

subsection \<open>Property access\<close>

text \<open>
  \<open>v.k\<close> for a name \<open>k\<close> that no prototype defines, which holds for every name the
  handler writes out (\<open>propertyType\<close>, \<open>area\<close>, \<open>amenities\<close>, \<open>choices\<close>,
  \<open>estimatedPrice\<close>, ...): reading from \<open>null\<close> or \<open>undefined\<close> throws, an object
  answers its own property, anything else answers \<open>undefined\<close>.
\<close>

definition field :: "jsval \<Rightarrow> string \<Rightarrow> error + jsval" where
  "field v k =
     (case v of
        JUndefined \<Rightarrow> Inl TypeError
      | JNull \<Rightarrow> Inl TypeError
      | JObj kvs \<Rightarrow> Inr (case map_of kvs k of Some x \<Rightarrow> x | None \<Rightarrow> JUndefined)
      | _ \<Rightarrow> Inr JUndefined)"

text \<open>\<open>v[0]\<close>.\<close>

definition index0 :: "jsval \<Rightarrow> error + jsval" where
  "index0 v =
     (case v of
        JUndefined \<Rightarrow> Inl TypeError
      | JNull \<Rightarrow> Inl TypeError
      | JArr xs \<Rightarrow> Inr (case xs of [] \<Rightarrow> JUndefined | x # _ \<Rightarrow> x)
      | JStr s \<Rightarrow> Inr (case s of [] \<Rightarrow> JUndefined | c # _ \<Rightarrow> JStr [c])
      | JObj kvs \<Rightarrow> Inr (case map_of kvs ''0'' of Some x \<Rightarrow> x | None \<Rightarrow> JUndefined)
      | _ \<Rightarrow> Inr JUndefined)"

subsection \<open>parseInt and toLowerCase\<close>

definition is_space :: "char \<Rightarrow> bool" where
  "is_space c = (c \<in> set [CHR '' '', CHR 0x09, CHR 0x0A, CHR 0x0B, CHR 0x0C, CHR 0x0D])"

definition digit_of :: "char \<Rightarrow> nat option" where
  "digit_of c = map_of (zip ''0123456789abcdefABCDEF'' ([0..<16] @ [10..<16])) c"

definition is_digit :: "nat \<Rightarrow> char \<Rightarrow> bool" where
  "is_digit radix c = (case digit_of c of Some d \<Rightarrow> d < radix | None \<Rightarrow> False)"

definition digits_value :: "nat \<Rightarrow> string \<Rightarrow> nat" where
  "digits_value radix z = foldl (\<lambda>acc c. acc * radix + the (digit_of c)) 0 z"

text \<open>
  \<open>parseInt(s)\<close> with no radix: leading white space is skipped, a sign is read, a
  \<open>0x\<close> prefix switches to base 16, the longest run of digits is the value, and no
  digit at all is \<open>NaN\<close>.
\<close>

definition parseInt :: "string \<Rightarrow> number" where
  "parseInt s =
     (let s1 = dropWhile is_space s;
          neg = (take 1 s1 = ''-'');
          s2 = (if take 1 s1 = ''-'' \<or> take 1 s1 = ''+'' then drop 1 s1 else s1);
          hex = (take 2 s2 = ''0x'' \<or> take 2 s2 = ''0X'');
          radix = (if hex then 16 else 10);
          s3 = (if hex then drop 2 s2 else s2);
          z = takeWhile (is_digit radix) s3
      in if z = [] then NaN
         else Fin ((if neg then - 1 else 1) * int (digits_value radix z)))"

definition lower_char :: "char \<Rightarrow> char" where
  "lower_char c =
     (case map_of (zip ''ABCDEFGHIJKLMNOPQRSTUVWXYZ'' ''abcdefghijklmnopqrstuvwxyz'') c of
        Some l \<Rightarrow> l
      | None \<Rightarrow> c)"

definition toLowerCase :: "string \<Rightarrow> string" where
  "toLowerCase s = map lower_char s"

subsection \<open>Arithmetic\<close>

definition of_number :: "number \<Rightarrow> rat option" where
  "of_number n = (case n of NaN \<Rightarrow> None | Fin i \<Rightarrow> Some (of_int i))"

definition mul :: "rat option \<Rightarrow> rat option \<Rightarrow> rat option" where
  "mul a b = (case a of None \<Rightarrow> None | Some x \<Rightarrow> (case b of None \<Rightarrow> None | Some y \<Rightarrow> Some (x * y)))"

text \<open>\<open>Math.round\<close>: the nearest integer, a tie going up.\<close>

definition Math_round :: "rat option \<Rightarrow> number" where
  "Math_round a = (case a of None \<Rightarrow> NaN | Some x \<Rightarrow> Fin \<lfloor>x + 1 / 2\<rfloor>)"

section \<open>The fallback price calculation\<close>

text \<open>
  \<open>baseRates\<close> and \<open>cityMultipliers\<close> are object literals, and \<open>table[key]\<close> on an
  object literal also finds what \<open>Object.prototype\<close> defines: for a key such as
  \<open>constructor\<close> or \<open>toString\<close> the answer is a built-in function, which is truthy
  (so \<open>|| 250\<close> keeps it) and is \<open>NaN\<close> as a factor of a product.
  The names are those of ECMAScript, Annex B included; a runtime that removes
  \<open>__proto__\<close> from \<open>Object.prototype\<close> answers the default for that one name.
\<close>

definition object_prototype_names :: "string list" where
  "object_prototype_names =
     [''constructor'', ''hasOwnProperty'', ''isPrototypeOf'', ''propertyIsEnumerable'',
      ''toLocaleString'', ''toString'', ''valueOf'', ''__defineGetter__'',
      ''__defineSetter__'', ''__lookupGetter__'', ''__lookupSetter__'', ''__proto__'']"

datatype entry = Own rat | Inherited | Missing

definition lookup :: "(string \<times> rat) list \<Rightarrow> string \<Rightarrow> entry" where
  "lookup tbl k =
     (case map_of tbl k of
        Some r \<Rightarrow> Own r
      | None \<Rightarrow> if k \<in> set object_prototype_names then Inherited else Missing)"

text \<open>\<open>table[key] || d\<close>.\<close>

definition or_default :: "entry \<Rightarrow> rat \<Rightarrow> entry" where
  "or_default e d =
     (case e of
        Own r \<Rightarrow> if r = 0 then Own d else Own r
      | Inherited \<Rightarrow> Inherited
      | Missing \<Rightarrow> Own d)"

definition of_entry :: "entry \<Rightarrow> rat option" where
  "of_entry e = (case e of Own r \<Rightarrow> Some r | _ \<Rightarrow> None)"

definition baseRates :: "(string \<times> rat) list" where
  "baseRates =
     [(''apartment'', 200), (''house'', 250), (''villa'', 400), (''penthouse'', 500),
      (''studio'', 300)]"

definition cityMultipliers :: "(string \<times> rat) list" where
  "cityMultipliers =
     [(''new york'', 35 / 10), (''san francisco'', 30 / 10), (''los angeles'', 25 / 10),
      (''seattle'', 22 / 10), (''boston'', 20 / 10), (''miami'', 18 / 10),
      (''chicago'', 15 / 10), (''austin'', 14 / 10), (''denver'', 13 / 10),
      (''atlanta'', 12 / 10)]"

text \<open>
  \<open>calculateBasePriceFromArea(area, city, state, propertyType)\<close>. The arguments are
  whatever the request body held; \<open>propertyType\<close> is turned into a property key,
  \<open>city.toLowerCase()\<close> throws unless \<open>city\<close> is a string, \<open>state\<close> is not used.
\<close>

definition calculateBasePriceFromArea ::
  "number \<Rightarrow> jsval \<Rightarrow> jsval \<Rightarrow> jsval \<Rightarrow> error + number" where
  "calculateBasePriceFromArea area city state propertyType =
     (let baseRate = or_default (lookup baseRates (to_string propertyType)) 250 in
      case city of
        JStr c \<Rightarrow>
          (let cityMultiplier = or_default (lookup cityMultipliers (toLowerCase c)) 1 in
           Inr (Math_round (mul (mul (of_number area) (of_entry baseRate)) (of_entry cityMultiplier))))
      | _ \<Rightarrow> Inl TypeError)"

section \<open>The edge function\<close>

definition and_then :: "error + 'a \<Rightarrow> ('a \<Rightarrow> error + 'b) \<Rightarrow> error + 'b" where
  "and_then m f = (case m of Inl e \<Rightarrow> Inl e | Inr x \<Rightarrow> f x)"

subsection \<open>The prompt\<close>

definition newline :: string where
  "newline = [CHR 0x0A]"

definition unlines :: "string list \<Rightarrow> string" where
  "unlines ls = concat (map (\<lambda>l. l @ newline) ls)"

definition prompt_head :: "string list" where
  \<open>prompt_head =
     ['''',
      ''You are a real estate price prediction AI expert. Analyze the following property data and provide an accurate price estimate.'',
      '''',
      ''Property Details:'']\<close>

definition prompt_tail :: "string list" where
  \<open>prompt_tail =
     ['''',
      ''Based on current market data and property analysis, provide:'',
      '''',
      ''1. Estimated market value (realistic price for current market)'',
      ''2. Price range (min and max)'',
      ''3. Confidence percentage (based on data completeness and market conditions)'',
      ''4. Factor scores (0-100) for: location, size, bedrooms, bathrooms, amenities, market'',
      ''5. 3 comparable properties with prices, distances, and similarity percentages'',
      '''',
      ''Respond in JSON format only:'',
      ''{'',
      ''  "estimatedPrice": number,'',
      ''  "priceRange": {'',
      ''    "min": number,'',
      ''    "max": number'',
      ''  },'',
      ''  "confidence": number (70-95),'',
      ''  "factors": {'',
      ''    "location": number (0-100),'',
      ''    "size": number (0-100),'',
      ''    "bedrooms": number (0-100),'',
      ''    "bathrooms": number (0-100),'',
      ''    "amenities": number (0-100),'',
      ''    "market": number (0-100)'',
      ''  },'',
      ''  "comparableProperties": ['',
      ''    {'',
      ''      "price": number,'',
      ''      "distance": "X.X miles",'',
      ''      "similarity": number (75-95)'',
      ''    }'',
      ''  ]'',
      ''}'',
      '''',
      ''Consider current market trends, location desirability, property features, and recent sales data for similar properties.'']\<close>

text \<open>
  The template literal of the handler. Its expressions are evaluated from top to
  bottom: the first property read throws when \<open>propertyData\<close> is \<open>null\<close>, and
  \<open>propertyData.amenities.join(', ')\<close> throws unless \<open>amenities\<close> is an array
  (no other JSON value has a callable \<open>join\<close>).
\<close>

definition build_prompt :: "jsval \<Rightarrow> error + string" where
  "build_prompt propertyData =
     and_then (field propertyData ''propertyType'') (\<lambda>propertyType.
     and_then (field propertyData ''bedrooms'') (\<lambda>bedrooms.
     and_then (field propertyData ''bathrooms'') (\<lambda>bathrooms.
     and_then (field propertyData ''area'') (\<lambda>area.
     and_then (field propertyData ''city'') (\<lambda>city.
     and_then (field propertyData ''state'') (\<lambda>state.
     and_then (field propertyData ''zipcode'') (\<lambda>zipcode.
     and_then (field propertyData ''yearBuilt'') (\<lambda>yearBuilt.
     and_then (field propertyData ''parkingSpaces'') (\<lambda>parkingSpaces.
     and_then (field propertyData ''furnished'') (\<lambda>furnished.
     and_then (field propertyData ''petFriendly'') (\<lambda>petFriendly.
     and_then (field propertyData ''amenities'') (\<lambda>amenities.
       case amenities of
         JArr xs \<Rightarrow>
           Inr (unlines
             (prompt_head @
              [''- Type: '' @ to_string propertyType,
               ''- Bedrooms: '' @ to_string bedrooms,
               ''- Bathrooms: '' @ to_string bathrooms,
               ''- Area: '' @ to_string area @ '' sq ft'',
               ''- Location: '' @ to_string city @ '', '' @ to_string state,
               ''- ZIP Code: '' @ to_string (or_else zipcode (JStr ''Not provided'')),
               ''- Year Built: '' @ to_string (or_else yearBuilt (JStr ''Not provided'')),
               ''- Parking Spaces: '' @ to_string (or_else parkingSpaces (JStr ''Not provided'')),
               ''- Furnished: '' @ (if truthy furnished then ''Yes'' else ''No''),
               ''- Pet Friendly: '' @ (if truthy petFriendly then ''Yes'' else ''No''),
               ''- Amenities: '' @
                  (if array_join '', '' xs = [] then ''None specified'' else array_join '', '' xs)] @
              prompt_tail))
       | _ \<Rightarrow> Inl TypeError))))))))))))"

subsection \<open>The fallback prediction\<close>

text \<open>The object literal of the \<open>catch (parseError)\<close> block.\<close>

definition fallback_prediction :: "number \<Rightarrow> jsval" where
  "fallback_prediction basePrice =
     JObj
      [(''estimatedPrice'', JNum basePrice),
       (''priceRange'',
          JObj [(''min'', JNum (Math_round (mul (of_number basePrice) (Some (85 / 100))))),
                (''max'', JNum (Math_round (mul (of_number basePrice) (Some (115 / 100)))))]),
       (''confidence'', JNum (Fin 75)),
       (''factors'',
          JObj [(''location'', JNum (Fin 80)), (''size'', JNum (Fin 85)),
                (''bedrooms'', JNum (Fin 75)), (''bathrooms'', JNum (Fin 75)),
                (''amenities'', JNum (Fin 70)), (''market'', JNum (Fin 80))]),
       (''comparableProperties'',
          JArr
           [JObj [(''price'', JNum (Math_round (mul (of_number basePrice) (Some (95 / 100))))),
                  (''distance'', JStr ''0.5 miles''), (''similarity'', JNum (Fin 92))],
            JObj [(''price'', JNum (Math_round (mul (of_number basePrice) (Some (108 / 100))))),
                  (''distance'', JStr ''0.8 miles''), (''similarity'', JNum (Fin 88))],
            JObj [(''price'', JNum (Math_round (mul (of_number basePrice) (Some (92 / 100))))),
                  (''distance'', JStr ''1.2 miles''), (''similarity'', JNum (Fin 85))]])]"

text \<open>
  The whole \<open>catch (parseError)\<close> block:
  \<open>calculateBasePriceFromArea(parseInt(propertyData.area), propertyData.city,
  propertyData.state, propertyData.propertyType)\<close>, then the object literal.
\<close>

definition fallback :: "jsval \<Rightarrow> error + jsval" where
  "fallback propertyData =
     and_then (field propertyData ''area'') (\<lambda>area.
     and_then (field propertyData ''city'') (\<lambda>city.
     and_then (field propertyData ''state'') (\<lambda>state.
     and_then (field propertyData ''propertyType'') (\<lambda>propertyType.
     and_then (calculateBasePriceFromArea (parseInt (to_string area)) city state propertyType)
       (\<lambda>basePrice. Inr (fallback_prediction basePrice))))))"

subsection \<open>The structure check\<close>

text \<open>
  \<open>if (!prediction.estimatedPrice || !prediction.priceRange || !prediction.factors)
  throw new Error(...)\<close>, applied to the prediction of either path.
\<close>

definition validate :: "jsval \<Rightarrow> error + jsval" where
  "validate prediction =
     and_then (field prediction ''estimatedPrice'') (\<lambda>estimatedPrice.
       if \<not> truthy estimatedPrice
       then Inl (Error ''Invalid prediction structure received from AI'')
       else
     and_then (field prediction ''priceRange'') (\<lambda>priceRange.
       if \<not> truthy priceRange
       then Inl (Error ''Invalid prediction structure received from AI'')
       else
     and_then (field prediction ''factors'') (\<lambda>factors.
       if \<not> truthy factors
       then Inl (Error ''Invalid prediction structure received from AI'')
       else Inr prediction)))"

subsection \<open>The remote call and the handler\<close>

text \<open>
  What the \<open>fetch\<close> of the chat-completion endpoint comes to: the promise rejects
  (network or transport failure), the response is not \<open>ok\<close> (with its status text),
  \<open>response.json()\<close> rejects, or \<open>response.json()\<close> is \<open>data\<close>.
\<close>

datatype remote = Rejected | Not_ok string | Body_not_json | Body jsval

text \<open>
  Lines 97 to 109 of the handler: from the outcome of the \<open>fetch\<close> to
  \<open>aiResponse = data.choices[0].message.content\<close>.
\<close>

definition aiResponse :: "remote \<Rightarrow> error + jsval" where
  "aiResponse r =
     (case r of
        Rejected \<Rightarrow> Inl NetworkFailure
      | Not_ok statusText \<Rightarrow> Inl (Error (''OpenAI API error: '' @ statusText))
      | Body_not_json \<Rightarrow> Inl SyntaxError
      | Body data \<Rightarrow>
          and_then (field data ''choices'') (\<lambda>choices.
            if \<not> truthy choices then Inl (Error ''Invalid response from OpenAI'') else
          and_then (index0 choices) (\<lambda>choice.
            if \<not> truthy choice then Inl (Error ''Invalid response from OpenAI'') else
          and_then (field choice ''message'') (\<lambda>message.
            if \<not> truthy message then Inl (Error ''Invalid response from OpenAI'') else
          field message ''content''))))"

text \<open>
  Lines 112 to 154: \<open>JSON.parse(aiResponse)\<close>, the fallback when it throws, and the
  structure check. \<open>JSON.parse\<close> is the runtime's and is a parameter: \<open>None\<close> is its
  \<open>SyntaxError\<close>. It reads the string form of its argument.
\<close>

definition predict :: "(string \<Rightarrow> jsval option) \<Rightarrow> jsval \<Rightarrow> remote \<Rightarrow> error + jsval" where
  "predict JSON_parse propertyData r =
     and_then (aiResponse r) (\<lambda>content.
     and_then
       (case JSON_parse (to_string content) of
          Some parsed \<Rightarrow> Inr parsed
        | None \<Rightarrow> fallback propertyData)
       validate)"

text \<open>
  A request is its method and what \<open>req.json()\<close> gives (\<open>None\<close> when it rejects).
  A response is the CORS preflight answer, status 200 with \<open>{ prediction }\<close>, or
  status 500 with \<open>{ error: 'Failed to generate price prediction', message }\<close> for
  the error that was caught.
\<close>

record request =
  req_method :: string
  req_json :: "jsval option"

datatype response = Preflight | Success jsval | Failure error

fun status :: "response \<Rightarrow> nat" where
  "status Preflight = 200"
| "status (Success prediction) = 200"
| "status (Failure e) = 500"

text \<open>
  The result of one invocation: the response, and the prompt that was sent to the
  chat-completion endpoint (\<open>None\<close> when \<open>fetch\<close> was never called).
\<close>

record outcome =
  response :: response
  sent :: "string option"

definition handler ::
  "(string \<Rightarrow> jsval option) \<Rightarrow> (string \<Rightarrow> remote) \<Rightarrow> request \<Rightarrow> outcome" where
  "handler JSON_parse fetch req =
     (if req_method req = ''OPTIONS'' then \<lparr>response = Preflight, sent = None\<rparr>
      else
        case req_json req of
          None \<Rightarrow> \<lparr>response = Failure SyntaxError, sent = None\<rparr>
        | Some propertyData \<Rightarrow>
            (case build_prompt propertyData of
               Inl e \<Rightarrow> \<lparr>response = Failure e, sent = None\<rparr>
             | Inr prompt \<Rightarrow>
                 (case predict JSON_parse propertyData (fetch prompt) of
                    Inl e \<Rightarrow> \<lparr>response = Failure e, sent = Some prompt\<rparr>
                  | Inr prediction \<Rightarrow> \<lparr>response = Success prediction, sent = Some prompt\<rparr>)))"

section \<open>The form\<close>

text \<open>
  \<open>handleSubmit\<close> of the price-prediction page. The form state holds strings,
  two booleans and the list of ticked amenities. \<open>supabase.functions.invoke\<close> is a
  parameter; \<open>Inl\<close> is a truthy \<open>error\<close>, \<open>Inr data\<close> is \<open>data\<close> with no error.
\<close>

record formData =
  propertyType :: string
  bedrooms :: string
  bathrooms :: string
  area :: string
  address :: string
  city :: string
  state :: string
  zipcode :: string
  yearBuilt :: string
  parkingSpaces :: string
  furnished :: bool
  petFriendly :: bool
  amenities :: "string list"

datatype toast = Missing_information | Prediction_generated | Prediction_failed

text \<open>
  What one submit did: the toast shown, the body handed to the edge function
  (\<open>None\<close> when it was not invoked), and the argument of \<open>setPrediction\<close>
  (\<open>None\<close> when it was not called).
\<close>

record submitted =
  toast :: toast
  invoked :: "formData option"
  prediction :: "jsval option"

definition handleSubmit :: "(formData \<Rightarrow> error + jsval) \<Rightarrow> formData \<Rightarrow> submitted" where
  "handleSubmit invoke fd =
     (if propertyType fd = [] \<or> bedrooms fd = [] \<or> bathrooms fd = [] \<or>
         area fd = [] \<or> city fd = [] \<or> state fd = []
      then \<lparr>toast = Missing_information, invoked = None, prediction = None\<rparr>
      else
        case invoke fd of
          Inl e \<Rightarrow> \<lparr>toast = Prediction_failed, invoked = Some fd, prediction = None\<rparr>
        | Inr data \<Rightarrow>
            (case field data ''prediction'' of
               Inl e \<Rightarrow> \<lparr>toast = Prediction_failed, invoked = Some fd, prediction = None\<rparr>
             | Inr p \<Rightarrow> \<lparr>toast = Prediction_generated, invoked = Some fd, prediction = Some p\<rparr>))"

text \<open>The request body the form sends: \<open>formData\<close> as JSON.\<close>

definition body_of :: "formData \<Rightarrow> jsval" where
  "body_of fd =
     JObj
      [(''propertyType'', JStr (propertyType fd)), (''bedrooms'', JStr (bedrooms fd)),
       (''bathrooms'', JStr (bathrooms fd)), (''area'', JStr (area fd)),
       (''address'', JStr (address fd)), (''city'', JStr (city fd)),
       (''state'', JStr (state fd)), (''zipcode'', JStr (zipcode fd)),
       (''yearBuilt'', JStr (yearBuilt fd)), (''parkingSpaces'', JStr (parkingSpaces fd)),
       (''furnished'', JBool (furnished fd)), (''petFriendly'', JBool (petFriendly fd)),
       (''amenities'', JArr (map JStr (amenities fd)))]"

section \<open>What the specification asks of an estimate\<close>

text \<open>\<open>v.k\<close> where the read does not throw, \<open>undefined\<close> where it does.\<close>

definition get :: "jsval \<Rightarrow> string \<Rightarrow> jsval" where
  "get v k = (case field v k of Inl e \<Rightarrow> JUndefined | Inr x \<Rightarrow> x)"

fun is_array :: "jsval \<Rightarrow> bool" where
  "is_array (JArr xs) = True"
| "is_array v = False"







text \<open>
  The tables as the specification words them: a rate per property type with 250 for
  a type that is not listed, a multiplier per lower-cased city with 1.0 for a city
  that is not listed.
\<close>

definition baseRatePerSqft :: "string \<Rightarrow> rat" where
  "baseRatePerSqft ty = (case map_of baseRates ty of Some r \<Rightarrow> r | None \<Rightarrow> 250)"

definition cityMultiplier :: "string \<Rightarrow> rat" where
  "cityMultiplier c = (case map_of cityMultipliers c of Some m \<Rightarrow> m | None \<Rightarrow> 1)"

text \<open>
  The request without the property \<open>k\<close>, and the request with \<open>k\<close> set to \<open>x\<close>
  (a value that is not an object is left as it is).
\<close>

fun without :: "string \<Rightarrow> jsval \<Rightarrow> jsval" where
  "without k (JObj kvs) = JObj (filter (\<lambda>kv. fst kv \<noteq> k) kvs)"
| "without k v = v"

fun with_field :: "string \<Rightarrow> jsval \<Rightarrow> jsval \<Rightarrow> jsval" where
  "with_field k x (JObj kvs) = JObj ((k, x) # kvs)"
| "with_field k x v = v"

text \<open>
  The eleven lines under \<open>Property Details:\<close>, read off the request with \<open>get\<close>;
  \<open>xs\<close> are the elements of \<open>amenities\<close>.
\<close>

definition property_details :: "jsval \<Rightarrow> jsval list \<Rightarrow> string list" where
  "property_details pd xs =
     [''- Type: '' @ to_string (get pd ''propertyType''),
      ''- Bedrooms: '' @ to_string (get pd ''bedrooms''),
      ''- Bathrooms: '' @ to_string (get pd ''bathrooms''),
      ''- Area: '' @ to_string (get pd ''area'') @ '' sq ft'',
      ''- Location: '' @ to_string (get pd ''city'') @ '', '' @ to_string (get pd ''state''),
      ''- ZIP Code: '' @
         (if truthy (get pd ''zipcode'') then to_string (get pd ''zipcode'') else ''Not provided''),
      ''- Year Built: '' @
         (if truthy (get pd ''yearBuilt'') then to_string (get pd ''yearBuilt'') else ''Not provided''),
      ''- Parking Spaces: '' @
         (if truthy (get pd ''parkingSpaces'') then to_string (get pd ''parkingSpaces'')
          else ''Not provided''),
      ''- Furnished: '' @ (if truthy (get pd ''furnished'') then ''Yes'' else ''No''),
      ''- Pet Friendly: '' @ (if truthy (get pd ''petFriendly'') then ''Yes'' else ''No''),
      ''- Amenities: '' @
         (if array_join '', '' xs = [] then ''None specified'' else array_join '', '' xs)]"

section \<open>Sample requests and replies\<close>

definition villa_form :: formData where
  "villa_form =
     \<lparr>propertyType = ''villa'', bedrooms = ''4'', bathrooms = ''2.5'', area = ''2000'',
      address = '''', city = ''Miami'', state = ''FL'', zipcode = ''33101'',
      yearBuilt = ''2018'', parkingSpaces = ''2'', furnished = True, petFriendly = False,
      amenities = [''Swimming Pool'', ''Garden'']\<rparr>"

definition post :: "jsval \<Rightarrow> request" where
  "post b = \<lparr>req_method = ''POST'', req_json = Some b\<rparr>"

text \<open>A chat-completion body whose first choice carries the given content.\<close>

definition completion :: "jsval \<Rightarrow> remote" where
  "completion c =
     Body (JObj
       [(''object'', JStr ''chat.completion''),
        (''choices'',
           JArr [JObj [(''index'', JNum (Fin 0)),
                       (''message'', JObj [(''role'', JStr ''assistant''), (''content'', c)]),
                       (''finish_reason'', JStr ''stop'')]])])"

text \<open>A remote service that answers every prompt the same way.\<close>

definition always :: "remote \<Rightarrow> string \<Rightarrow> remote" where
  "always r p = r"

definition incomplete_text :: string where
  \<open>incomplete_text = ''{"estimatedPrice": 500000, "factors": {"location": 80}}''\<close>

definition incomplete_estimate :: jsval where
  "incomplete_estimate =
     JObj [(''estimatedPrice'', JNum (Fin 500000)),
           (''factors'', JObj [(''location'', JNum (Fin 80))])]"

definition inverted_text :: string where
  \<open>inverted_text =
     ''{"estimatedPrice": 100, "priceRange": {"min": 500, "max": 400}, "factors": {"location": 250}}''\<close>

definition inverted_estimate :: jsval where
  "inverted_estimate =
     JObj [(''estimatedPrice'', JNum (Fin 100)),
           (''priceRange'', JObj [(''min'', JNum (Fin 500)), (''max'', JNum (Fin 400))]),
           (''factors'', JObj [(''location'', JNum (Fin 250))])]"

text \<open>
  \<open>JSON.parse\<close> on the texts used below: the two JSON texts give their values, and
  any other text used here (\<open>Sorry, I cannot estimate this.\<close>) is a syntax error.
\<close>

definition sample_parse :: "string \<Rightarrow> jsval option" where
  "sample_parse s =
     (if s = incomplete_text then Some incomplete_estimate
      else if s = inverted_text then Some inverted_estimate
      else None)"

definition apology :: jsval where
  "apology = JStr ''Sorry, I cannot estimate this.''"

text \<open>A request with neither \<open>propertyType\<close> nor \<open>bedrooms\<close>.\<close>

definition untyped_request :: jsval where
  "untyped_request =
     JObj [(''bathrooms'', JStr ''2''), (''area'', JStr ''1000''),
           (''city'', JStr ''Nowhereville''), (''state'', JStr ''TX''),
           (''amenities'', JArr [])]"


definition constructor_request :: jsval where
  "constructor_request =
     JObj [(''propertyType'', JStr ''house''), (''bedrooms'', JStr ''3''),
           (''bathrooms'', JStr ''2''), (''area'', JStr ''1000''),
           (''city'', JStr ''Constructor''), (''state'', JStr ''TX''),
           (''amenities'', JArr [])]"

text \<open>All six required fields, no \<open>amenities\<close>.\<close>

definition no_amenities_request :: jsval where
  "no_amenities_request =
     JObj [(''propertyType'', JStr ''house''), (''bedrooms'', JStr ''3''),
           (''bathrooms'', JStr ''2''), (''area'', JStr ''1500''),
           (''city'', JStr ''Austin''), (''state'', JStr ''TX'')]"

text \<open>All three optional fields of the prompt given, \<open>parkingSpaces\<close> as the number 0 or 2.\<close>

definition parking_request :: "int \<Rightarrow> (string \<times> jsval) list" where
  "parking_request n =
     [(''propertyType'', JStr ''house''), (''bedrooms'', JNum (Fin 3)),
      (''bathrooms'', JNum (Fin 2)), (''area'', JNum (Fin 1500)),
      (''city'', JStr ''Austin''), (''state'', JStr ''TX''),
      (''zipcode'', JStr ''73301''), (''yearBuilt'', JNum (Fin 2015)),
      (''parkingSpaces'', JNum (Fin n)), (''furnished'', JBool False),
      (''petFriendly'', JBool True), (''amenities'', JArr [JStr ''Garage''])]"


text \<open>
  \<open>supabase.functions.invoke('predict-price', { body: formData })\<close> against the
  handler: the form state is posted as JSON, and a response that is not 2xx comes
  back as \<open>error\<close>.
\<close>

definition invoke_predict_price ::
  "(string \<Rightarrow> jsval option) \<Rightarrow> (string \<Rightarrow> remote) \<Rightarrow> formData \<Rightarrow> error + jsval" where
  "invoke_predict_price P F fd =
     (case response (handler P F (post (body_of fd))) of
        Success est \<Rightarrow> Inr (JObj [(''prediction'', est)])
      | Failure e \<Rightarrow> Inl e
      | Preflight \<Rightarrow> Inr JNull)"

section \<open>Basic facts\<close>

lemma and_then_Inl [simp]: "and_then (Inl e) f = Inl e"
  by (simp add: and_then_def)

lemma and_then_Inr [simp]: "and_then (Inr x) f = f x"
  by (simp add: and_then_def)


lemma field_get:
  "field v k = (if v = JNull \<or> v = JUndefined then Inl TypeError else Inr (get v k))"
  by (cases v) (simp_all add: field_def get_def)

lemma get_JObj [simp]:
  "get (JObj kvs) k = (case map_of kvs k of Some x \<Rightarrow> x | None \<Rightarrow> JUndefined)"
  by (simp add: get_def field_def)

lemma get_null [simp]: "get JNull k = JUndefined" "get JUndefined k = JUndefined"
  by (simp_all add: get_def field_def)

lemma map_of_without:
  "map_of (filter (\<lambda>kv. fst kv \<noteq> k) kvs) j = (if j = k then None else map_of kvs j)"
  by (induction kvs) auto

lemma get_without: "get (without k pd) j = (if j = k then JUndefined else get pd j)"
  by (cases pd) (simp_all add: map_of_without get_def field_def)

lemma get_with_field: "j \<noteq> k \<Longrightarrow> get (with_field k x pd) j = get pd j"
  by (cases pd) (simp_all add: get_def field_def)

lemma post_simps [simp]:
  "req_method (post b) \<noteq> ''OPTIONS''" "req_json (post b) = Some b"
  by (simp_all add: post_def)

subsection \<open>The prompt\<close>

text \<open>
  The prompt is built exactly when \<open>amenities\<close> is an array, and then it is the fixed
  head, the eleven detail lines and the fixed tail.
\<close>

lemma build_prompt_eq:
  "build_prompt pd =
     (case get pd ''amenities'' of
        JArr xs \<Rightarrow> Inr (unlines (prompt_head @ property_details pd xs @ prompt_tail))
      | _ \<Rightarrow> Inl TypeError)"
proof (cases "pd = JNull \<or> pd = JUndefined")
  case True
  then show ?thesis
    by (auto simp: build_prompt_def field_get)
next
  case False
  then show ?thesis
    by (cases "get pd ''amenities''")
      (simp_all add: build_prompt_def field_get property_details_def or_else_def)
qed

lemma build_prompt_throws:
  "\<not> is_array (get pd ''amenities'') \<Longrightarrow> build_prompt pd = Inl TypeError"
  by (cases "get pd ''amenities''") (simp_all add: build_prompt_eq)

lemma build_prompt_Inr:
  assumes "build_prompt pd = Inr p"
  obtains xs where "get pd ''amenities'' = JArr xs"
    and "p = unlines (prompt_head @ property_details pd xs @ prompt_tail)"
  using assms by (cases "get pd ''amenities''") (simp_all add: build_prompt_eq)

lemma build_prompt_returns:
  "get pd ''amenities'' = JArr xs \<Longrightarrow> \<exists>p. build_prompt pd = Inr p"
  by (simp add: build_prompt_eq)

lemma villa_prompt: "\<exists>p. build_prompt (body_of villa_form) = Inr p"
  by (rule build_prompt_returns [of _ "map JStr (amenities villa_form)"]) (simp add: body_of_def)

lemma sublist_unlines: "l \<in> set ls \<Longrightarrow> sublist (l @ newline) (unlines ls)"
proof -
  assume "l \<in> set ls"
  then obtain as bs where "ls = as @ l # bs"
    by (auto simp: in_set_conv_decomp)
  then have "unlines ls = unlines as @ (l @ newline) @ unlines bs"
    by (simp add: unlines_def)
  then show ?thesis
    unfolding sublist_def by blast
qed

subsection \<open>The handler after the prompt\<close>

lemma handler_post:
  assumes "req_method req \<noteq> ''OPTIONS''" and "req_json req = Some pd"
    and "build_prompt pd = Inr p"
  shows "handler P F req =
    (case predict P pd (F p) of
       Inl e \<Rightarrow> \<lparr>response = Failure e, sent = Some p\<rparr>
     | Inr est \<Rightarrow> \<lparr>response = Success est, sent = Some p\<rparr>)"
  using assms by (simp add: handler_def)

lemma validate_eq:
  "validate v =
     (if v = JNull \<or> v = JUndefined then Inl TypeError
      else if truthy (get v ''estimatedPrice'') \<and> truthy (get v ''priceRange'') \<and>
              truthy (get v ''factors'')
      then Inr v
      else Inl (Error ''Invalid prediction structure received from AI''))"
  by (simp add: validate_def field_get)


lemma get_fallback_prediction [simp]:
  "get (fallback_prediction b) ''estimatedPrice'' = JNum b"
  "truthy (get (fallback_prediction b) ''priceRange'')"
  "truthy (get (fallback_prediction b) ''factors'')"
  by (simp_all add: fallback_prediction_def)




lemma predict_parsed:
  assumes "aiResponse r = Inr c" and "P (to_string c) = Some v"
  shows "predict P pd r = validate v"
  using assms by (simp add: predict_def)

lemma aiResponse_completion: "aiResponse (completion c) = Inr c"
  by (simp add: completion_def aiResponse_def field_def index0_def)

subsection \<open>The arithmetic of the fallback\<close>







section \<open>Failures of the remote call\<close>

text \<open>
  C1, as the specification states it: when the remote model call fails (the fetch
  rejects, or the chat-completion endpoint answers with a status that is not a
  success), the estimator absorbs the failure and returns the fallback estimate.

  The handler does not: line 99 throws on \<open>!response.ok\<close>, a rejected \<open>fetch\<close>
  throws by itself, and the outer \<open>catch\<close> answers with status 500. For the villa
  of 2000 sq ft in Miami the fallback would be 1,440,000, and the caller gets the
  error response.
\<close>

theorem remote_failure_counterexample:
  "fallback (body_of villa_form) = Inr (fallback_prediction (Fin 1440000)) \<and>
   response (handler sample_parse (always (Not_ok ''Service Unavailable'')) (post (body_of villa_form)))
     = Failure (Error ''OpenAI API error: Service Unavailable'') \<and>
   response (handler sample_parse (always Rejected) (post (body_of villa_form)))
     = Failure NetworkFailure"
  by code_simp

text \<open>
  C1, amended: for every request that gets as far as the remote call, a rejected
  fetch or a response that is not ok makes the handler answer with status 500,
  carrying the network error or \<open>OpenAI API error: <status text>\<close>; the fallback
  heuristic is not used.
\<close>

theorem remote_failure_is_500:
  assumes "req_method req \<noteq> ''OPTIONS''" and "req_json req = Some pd"
    and "build_prompt pd = Inr p"
    and "F p = Rejected \<or> F p = Not_ok st"
  shows "handler P F req =
           \<lparr>response = Failure (if F p = Rejected then NetworkFailure
                                else Error (''OpenAI API error: '' @ st)),
            sent = Some p\<rparr> \<and>
         status (response (handler P F req)) = 500"
  using assms(4) by (auto simp: handler_post [OF assms(1-3)] predict_def aiResponse_def)

theorem remote_failure_is_500_witness:
  "req_method (post (body_of villa_form)) \<noteq> ''OPTIONS'' \<and>
   req_json (post (body_of villa_form)) = Some (body_of villa_form) \<and>
   response (handler sample_parse (always (Not_ok ''Bad Gateway'')) (post (body_of villa_form)))
     = Failure (Error ''OpenAI API error: Bad Gateway'') \<and>
   status (response (handler sample_parse (always (Not_ok ''Bad Gateway''))
     (post (body_of villa_form)))) = 500"
proof -
  obtain p where p: "build_prompt (body_of villa_form) = Inr p"
    using villa_prompt by blast
  have f: "always (Not_ok ''Bad Gateway'') p = Rejected \<or>
           always (Not_ok ''Bad Gateway'') p = Not_ok ''Bad Gateway''"
    by (simp add: always_def)
  from remote_failure_is_500
      [where F = "always (Not_ok ''Bad Gateway'')" and P = sample_parse, OF post_simps p f]
  show ?thesis
    by (simp add: always_def)
qed

section \<open>Replies that parse but are incomplete\<close>

text \<open>
  C2, as the specification states it: a reply that parses as JSON but lacks
  \<open>estimatedPrice\<close>, \<open>priceRange\<close> or \<open>factors\<close> is treated like a parse failure and
  the fallback estimate is returned.

  The handler throws instead (line 153) and the caller gets status 500: here the
  reply has no \<open>priceRange\<close>.
\<close>

theorem incomplete_reply_counterexample:
  "sample_parse incomplete_text = Some incomplete_estimate \<and>
   get incomplete_estimate ''priceRange'' = JUndefined \<and>
   fallback (body_of villa_form) = Inr (fallback_prediction (Fin 1440000)) \<and>
   response (handler sample_parse (always (completion (JStr incomplete_text)))
     (post (body_of villa_form)))
     = Failure (Error ''Invalid prediction structure received from AI'')"
  by code_simp

text \<open>
  C2, amended: for every reply whose content parses to a value in which
  \<open>estimatedPrice\<close>, \<open>priceRange\<close> or \<open>factors\<close> is missing (or otherwise falsy), the
  handler answers with status 500 and the error
  \<open>Invalid prediction structure received from AI\<close> (a \<open>TypeError\<close> when the content
  is the JSON \<open>null\<close>); the fallback heuristic is not used.
\<close>

theorem incomplete_reply_is_500:
  assumes "req_method req \<noteq> ''OPTIONS''" and "req_json req = Some pd"
    and "build_prompt pd = Inr p"
    and "aiResponse (F p) = Inr c" and "P (to_string c) = Some v"
    and "\<not> truthy (get v ''estimatedPrice'') \<or> \<not> truthy (get v ''priceRange'') \<or>
         \<not> truthy (get v ''factors'')"
  shows "handler P F req =
           \<lparr>response = Failure (if v = JNull \<or> v = JUndefined then TypeError
                                else Error ''Invalid prediction structure received from AI''),
            sent = Some p\<rparr> \<and>
         status (response (handler P F req)) = 500"
  using assms(6)
  by (auto simp: handler_post [OF assms(1-3)] predict_parsed [where P = P, OF assms(4,5)]
      validate_eq)

theorem incomplete_reply_is_500_witness:
  "aiResponse (completion (JStr incomplete_text)) = Inr (JStr incomplete_text) \<and>
   sample_parse (to_string (JStr incomplete_text)) = Some incomplete_estimate \<and>
   \<not> truthy (get incomplete_estimate ''priceRange'') \<and>
   response (handler sample_parse (always (completion (JStr incomplete_text)))
     (post (body_of villa_form)))
     = Failure (Error ''Invalid prediction structure received from AI'') \<and>
   status (response (handler sample_parse (always (completion (JStr incomplete_text)))
     (post (body_of villa_form)))) = 500"
proof -
  obtain p where p: "build_prompt (body_of villa_form) = Inr p"
    using villa_prompt by blast
  have a: "aiResponse (always (completion (JStr incomplete_text)) p) = Inr (JStr incomplete_text)"
    by (simp add: always_def aiResponse_completion)
  have s: "sample_parse (to_string (JStr incomplete_text)) = Some incomplete_estimate"
    by (simp add: sample_parse_def)
  have t: "\<not> truthy (get incomplete_estimate ''estimatedPrice'') \<or>
           \<not> truthy (get incomplete_estimate ''priceRange'') \<or>
           \<not> truthy (get incomplete_estimate ''factors'')"
    by (simp add: incomplete_estimate_def)
  from incomplete_reply_is_500
      [where F = "always (completion (JStr incomplete_text))" and P = sample_parse,
        OF post_simps p a s t] a s
  show ?thesis
    by (simp add: always_def incomplete_estimate_def)
qed

section \<open>A request without amenities\<close>

text \<open>
  C9: for every request body in which \<open>amenities\<close> is absent or is not an array,
  building the prompt throws and the handler answers with the status 500 response,
  before any remote call, also when all six required fields are present.
\<close>

theorem amenities_required:
  assumes "req_method req \<noteq> ''OPTIONS''"
    and "req_json req = Some pd"
    and "\<not> is_array (get pd ''amenities'')"
  shows "handler P F req = \<lparr>response = Failure TypeError, sent = None\<rparr>"
  using assms by (simp add: handler_def build_prompt_throws)

theorem amenities_required_witness:
  "req_method (post no_amenities_request) \<noteq> ''OPTIONS'' \<and>
   req_json (post no_amenities_request) = Some no_amenities_request \<and>
   list_all (\<lambda>k. truthy (get no_amenities_request k))
     [''propertyType'', ''bedrooms'', ''bathrooms'', ''area'', ''city'', ''state''] \<and>
   \<not> is_array (get no_amenities_request ''amenities'') \<and>
   handler sample_parse (always (completion apology)) (post no_amenities_request) =
     \<lparr>response = Failure TypeError, sent = None\<rparr> \<and>
   status (Failure TypeError) = 500"
  using amenities_required [of "post no_amenities_request" no_amenities_request
      sample_parse "always (completion apology)"]
  by (simp add: no_amenities_request_def)

section \<open>Parking spaces given as zero\<close>

text \<open>
  C10: for every request with \<open>parkingSpaces\<close> equal to the number 0, the prompt
  reads \<open>Parking Spaces: Not provided\<close>, and it is the very prompt of the same
  request with \<open>parkingSpaces\<close> left out: the placeholder is chosen by falsiness.
\<close>

theorem parking_zero_not_provided:
  assumes "get pd ''parkingSpaces'' = JNum (Fin 0)"
    and "build_prompt pd = Inr p"
  shows "sublist (''- Parking Spaces: Not provided'' @ newline) p \<and>
         build_prompt (without ''parkingSpaces'' pd) = Inr p"
proof
  from assms(2) obtain xs
    where p: "p = unlines (prompt_head @ property_details pd xs @ prompt_tail)"
    by (rule build_prompt_Inr)
  have "''- Parking Spaces: Not provided'' \<in> set (property_details pd xs)"
    by (simp add: property_details_def assms(1))
  then show "sublist (''- Parking Spaces: Not provided'' @ newline) p"
    unfolding p by (intro sublist_unlines) simp
next
  have "property_details (without ''parkingSpaces'' pd) xs = property_details pd xs" for xs
    by (simp add: property_details_def get_without assms(1))
  then have "build_prompt (without ''parkingSpaces'' pd) = build_prompt pd"
    by (simp add: build_prompt_eq get_without split: jsval.split)
  with assms(2) show "build_prompt (without ''parkingSpaces'' pd) = Inr p"
    by simp
qed

theorem parking_zero_not_provided_witness:
  "get (JObj (parking_request 0)) ''parkingSpaces'' = JNum (Fin 0) \<and>
   (case build_prompt (JObj (parking_request 0)) of
      Inl e \<Rightarrow> False
    | Inr p \<Rightarrow>
        sublist (''- Parking Spaces: Not provided'' @ newline) p \<and>
        build_prompt (without ''parkingSpaces'' (JObj (parking_request 0))) = Inr p)"
proof -
  have z: "get (JObj (parking_request 0)) ''parkingSpaces'' = JNum (Fin 0)"
    by (simp add: parking_request_def)
  have "get (JObj (parking_request 0)) ''amenities'' = JArr [JStr ''Garage'']"
    by (simp add: parking_request_def)
  then obtain p where p: "build_prompt (JObj (parking_request 0)) = Inr p"
    using build_prompt_returns by blast
  from parking_zero_not_provided [OF z p] z p show ?thesis
    by simp
qed

section \<open>Replies that are no JSON\<close>






section \<open>The invariants of the estimate\<close>




section \<open>Required fields\<close>

text \<open>
  C4, as the specification states it: a request in which one of \<open>propertyType\<close>,
  \<open>bedrooms\<close>, \<open>bathrooms\<close>, \<open>area\<close>, \<open>city\<close>, \<open>state\<close> is absent or empty is rejected
  before any remote call, and the missing field is never defaulted.

  The edge function has no such check. A request with neither \<open>propertyType\<close> nor
  \<open>bedrooms\<close> is sent to the model (the prompt reads \<open>undefined\<close> for both), and
  when the reply is no JSON the fallback prices it at the default rate of 250.
\<close>

theorem missing_field_counterexample:
  "get untyped_request ''propertyType'' = JUndefined \<and>
   get untyped_request ''bedrooms'' = JUndefined \<and>
   sent (handler sample_parse (always (completion apology)) (post untyped_request)) \<noteq> None \<and>
   response (handler sample_parse (always (completion apology)) (post untyped_request))
     = Success (fallback_prediction (Fin 250000))"
  by code_simp

text \<open>
  C4, amended: in the form, \<open>handleSubmit\<close> rejects every submission in which one
  of the six required fields is empty with the toast \<open>Missing information\<close>,
  without invoking the edge function and without setting a prediction. The edge
  function itself does not check the required fields.
\<close>

theorem handleSubmit_rejects_missing:
  assumes "propertyType fd = [] \<or> bedrooms fd = [] \<or> bathrooms fd = [] \<or>
           area fd = [] \<or> city fd = [] \<or> state fd = []"
  shows "handleSubmit invoke fd =
           \<lparr>toast = Missing_information, invoked = None, prediction = None\<rparr>"
  using assms by (simp add: handleSubmit_def)

theorem handleSubmit_rejects_missing_witness:
  "bedrooms (villa_form\<lparr>bedrooms := ''''\<rparr>) = [] \<and>
   handleSubmit (invoke_predict_price sample_parse (always (completion apology)))
     (villa_form\<lparr>bedrooms := ''''\<rparr>) =
     \<lparr>toast = Missing_information, invoked = None, prediction = None\<rparr>"
  using handleSubmit_rejects_missing
    [of "villa_form\<lparr>bedrooms := ''''\<rparr>"
      "invoke_predict_price sample_parse (always (completion apology))"]
  by simp

section \<open>The fallback formula\<close>

text \<open>
  For a property type and a lower-cased city that are not names of
  \<open>Object.prototype\<close>, the lookups of the code are the tables of the specification,
  and the base price is the rounded product.
\<close>

lemma table_rate:
  "k \<notin> set object_prototype_names \<Longrightarrow>
   or_default (lookup baseRates k) 250 = Own (baseRatePerSqft k)"
  by (auto simp: lookup_def or_default_def baseRatePerSqft_def baseRates_def)

lemma table_multiplier:
  "k \<notin> set object_prototype_names \<Longrightarrow>
   or_default (lookup cityMultipliers k) 1 = Own (cityMultiplier k)"
  by (auto simp: lookup_def or_default_def cityMultiplier_def cityMultipliers_def)

lemma base_price_formula:
  assumes "to_string t \<notin> set object_prototype_names"
    and "toLowerCase c \<notin> set object_prototype_names"
  shows "calculateBasePriceFromArea (Fin n) (JStr c) s t =
           Inr (Fin \<lfloor>of_int n * baseRatePerSqft (to_string t) * cityMultiplier (toLowerCase c)
                     + 1 / 2\<rfloor>)"
  by (simp add: calculateBasePriceFromArea_def table_rate [OF assms(1)]
      table_multiplier [OF assms(2)] of_entry_def of_number_def mul_def Math_round_def)

lemma fallback_prediction_fields:
  "get (fallback_prediction b) ''estimatedPrice'' = JNum b"
  "get (get (fallback_prediction b) ''priceRange'') ''min'' =
     JNum (Math_round (mul (of_number b) (Some (85 / 100))))"
  "get (get (fallback_prediction b) ''priceRange'') ''max'' =
     JNum (Math_round (mul (of_number b) (Some (115 / 100))))"
  "get (fallback_prediction b) ''confidence'' = JNum (Fin 75)"
  by (simp_all add: fallback_prediction_def)

text \<open>
  The two scenarios of the specification: a villa of 2000 sq ft in Miami, and an
  unknown type of 1000 sq ft in Nowhereville.
\<close>

lemma fallback_scenarios:
  "calculateBasePriceFromArea (Fin 2000) (JStr ''Miami'') (JStr ''FL'') (JStr ''villa'')
     = Inr (Fin 1440000) \<and>
   get (get (fallback_prediction (Fin 1440000)) ''priceRange'') ''min'' = JNum (Fin 1224000) \<and>
   get (get (fallback_prediction (Fin 1440000)) ''priceRange'') ''max'' = JNum (Fin 1656000) \<and>
   calculateBasePriceFromArea (Fin 1000) (JStr ''Nowhereville'') (JStr ''TX'')
     (JStr ''unknown-type'') = Inr (Fin 250000)"
  by code_simp

text \<open>
  C6: the fallback computes \<open>round(area * baseRatePerSqft(type) *
  cityMultiplier(lower-cased city))\<close>, with 250 for a type and 1.0 for a city that
  the tables do not list.

  The code misses the default for a key that \<open>Object.prototype\<close> defines:
  \<open>cityMultipliers['constructor']\<close> is a built-in function, \<open>|| 1.0\<close> keeps it, and
  the product is \<open>NaN\<close>. For 1000 sq ft in a city called Constructor (or of a type
  called \<open>toString\<close>) the claim gives 250,000; the code computes \<open>NaN\<close>, and the
  caller gets the status 500 response of the structure check.
\<close>

theorem inherited_key_base_price:
  "calculateBasePriceFromArea (Fin 1000) (JStr ''Constructor'') (JStr ''TX'') (JStr ''house'')
     = Inr NaN \<and>
   calculateBasePriceFromArea (Fin 1000) (JStr ''Nowhereville'') (JStr ''TX'') (JStr ''toString'')
     = Inr NaN \<and>
   response (handler sample_parse (always (completion apology)) (post constructor_request))
     = Failure (Error ''Invalid prediction structure received from AI'')"
  by code_simp

section \<open>The fallback is reproducible\<close>



section \<open>What the prompt shows\<close>

lemma detail_line:
  assumes "l \<in> set (property_details pd xs)"
    and "p = unlines (prompt_head @ property_details pd xs @ prompt_tail)"
  shows "sublist (l @ newline) p"
  unfolding assms(2) using assms(1) by (intro sublist_unlines) simp

lemma build_prompt_address:
  "build_prompt (with_field ''address'' a pd) = build_prompt pd"
  "build_prompt (without ''address'' pd) = build_prompt pd"
  by (simp_all add: build_prompt_eq property_details_def get_with_field get_without
      split: jsval.split)

text \<open>
  C8, as the specification states it: the prompt embeds every field of the
  property description, and each of \<open>zipcode\<close>, \<open>address\<close>, \<open>yearBuilt\<close> and
  \<open>parkingSpaces\<close> that is missing is rendered as a \<open>not provided\<close> placeholder.

  The handler never reads \<open>address\<close>. For a request without an address and with
  the other three given, the prompt holds no placeholder at all, and giving an
  address leaves the prompt as it was.
\<close>

theorem prompt_address_counterexample:
  "get (JObj (parking_request 2)) ''address'' = JUndefined \<and>
   (case build_prompt (JObj (parking_request 2)) of
      Inl e \<Rightarrow> False
    | Inr p \<Rightarrow> \<not> sublist ''Not provided'' p) \<and>
   build_prompt (JObj ((''address'', JStr ''12 Ocean Drive'') # parking_request 2)) =
   build_prompt (JObj (parking_request 2))"
  by (simp add: parking_request_def build_prompt_eq unlines_def prompt_head_def prompt_tail_def
      property_details_def newline_def array_join_def digits.simps digit_char_def sublist_code)

text \<open>
  C8, amended: every prompt that is built has a line for the type, the bedrooms,
  the bathrooms, the area, the location (city and state), the ZIP code, the year
  built, the parking spaces, furnished, pet friendly and the amenities, each with
  the string form of the field; a \<open>zipcode\<close>, \<open>yearBuilt\<close> or \<open>parkingSpaces\<close> that
  is missing (or otherwise falsy) reads \<open>Not provided\<close>, and no amenities read
  \<open>None specified\<close>. The address is not part of the prompt: the prompt is the same
  with any address and with none.
\<close>

theorem prompt_embeds_fields:
  assumes "build_prompt pd = Inr p"
  shows "sublist (''- Type: '' @ to_string (get pd ''propertyType'') @ newline) p \<and>
         sublist (''- Bedrooms: '' @ to_string (get pd ''bedrooms'') @ newline) p \<and>
         sublist (''- Bathrooms: '' @ to_string (get pd ''bathrooms'') @ newline) p \<and>
         sublist (''- Area: '' @ to_string (get pd ''area'') @ '' sq ft'' @ newline) p \<and>
         sublist (''- Location: '' @ to_string (get pd ''city'') @ '', '' @
                    to_string (get pd ''state'') @ newline) p \<and>
         sublist (''- ZIP Code: '' @
                    (if truthy (get pd ''zipcode'') then to_string (get pd ''zipcode'')
                     else ''Not provided'') @ newline) p \<and>
         sublist (''- Year Built: '' @
                    (if truthy (get pd ''yearBuilt'') then to_string (get pd ''yearBuilt'')
                     else ''Not provided'') @ newline) p \<and>
         sublist (''- Parking Spaces: '' @
                    (if truthy (get pd ''parkingSpaces'') then to_string (get pd ''parkingSpaces'')
                     else ''Not provided'') @ newline) p \<and>
         sublist (''- Furnished: '' @
                    (if truthy (get pd ''furnished'') then ''Yes'' else ''No'') @ newline) p \<and>
         sublist (''- Pet Friendly: '' @
                    (if truthy (get pd ''petFriendly'') then ''Yes'' else ''No'') @ newline) p \<and>
         (\<exists>xs. get pd ''amenities'' = JArr xs \<and>
               sublist (''- Amenities: '' @
                          (if array_join '', '' xs = [] then ''None specified''
                           else array_join '', '' xs) @ newline) p) \<and>
         build_prompt (with_field ''address'' a pd) = Inr p \<and>
         build_prompt (without ''address'' pd) = Inr p"
proof -
  from assms obtain xs where xs: "get pd ''amenities'' = JArr xs"
    and p: "p = unlines (prompt_head @ property_details pd xs @ prompt_tail)"
    by (rule build_prompt_Inr)
  have line: "sublist (l @ newline) p" if "l \<in> set (property_details pd xs)" for l
    using that p by (rule detail_line)
  have "sublist ((''- Type: '' @ to_string (get pd ''propertyType'')) @ newline) p"
    by (rule line) (simp add: property_details_def)
  moreover have "sublist ((''- Bedrooms: '' @ to_string (get pd ''bedrooms'')) @ newline) p"
    by (rule line) (simp add: property_details_def)
  moreover have "sublist ((''- Bathrooms: '' @ to_string (get pd ''bathrooms'')) @ newline) p"
    by (rule line) (simp add: property_details_def)
  moreover have "sublist ((''- Area: '' @ to_string (get pd ''area'') @ '' sq ft'') @ newline) p"
    by (rule line) (simp add: property_details_def)
  moreover have "sublist ((''- Location: '' @ to_string (get pd ''city'') @ '', '' @
                    to_string (get pd ''state'')) @ newline) p"
    by (rule line) (simp add: property_details_def)
  moreover have "sublist ((''- ZIP Code: '' @
                    (if truthy (get pd ''zipcode'') then to_string (get pd ''zipcode'')
                     else ''Not provided'')) @ newline) p"
    by (rule line) (simp add: property_details_def)
  moreover have "sublist ((''- Year Built: '' @
                    (if truthy (get pd ''yearBuilt'') then to_string (get pd ''yearBuilt'')
                     else ''Not provided'')) @ newline) p"
    by (rule line) (simp add: property_details_def)
  moreover have "sublist ((''- Parking Spaces: '' @
                    (if truthy (get pd ''parkingSpaces'') then to_string (get pd ''parkingSpaces'')
                     else ''Not provided'')) @ newline) p"
    by (rule line) (simp add: property_details_def)
  moreover have "sublist ((''- Furnished: '' @
                    (if truthy (get pd ''furnished'') then ''Yes'' else ''No'')) @ newline) p"
    by (rule line) (simp add: property_details_def)
  moreover have "sublist ((''- Pet Friendly: '' @
                    (if truthy (get pd ''petFriendly'') then ''Yes'' else ''No'')) @ newline) p"
    by (rule line) (simp add: property_details_def)
  moreover have "sublist ((''- Amenities: '' @
                          (if array_join '', '' xs = [] then ''None specified''
                           else array_join '', '' xs)) @ newline) p"
    by (rule line) (simp add: property_details_def)
  ultimately show ?thesis
    using xs assms by (simp add: build_prompt_address)
qed

theorem prompt_embeds_fields_witness:
  "(case build_prompt untyped_request of
      Inl e \<Rightarrow> False
    | Inr p \<Rightarrow>
        sublist (''- Type: undefined'' @ newline) p \<and>
        sublist (''- Area: 1000 sq ft'' @ newline) p \<and>
        sublist (''- Location: Nowhereville, TX'' @ newline) p \<and>
        sublist (''- ZIP Code: Not provided'' @ newline) p \<and>
        sublist (''- Year Built: Not provided'' @ newline) p \<and>
        sublist (''- Parking Spaces: Not provided'' @ newline) p \<and>
        sublist (''- Furnished: No'' @ newline) p \<and>
        sublist (''- Amenities: None specified'' @ newline) p \<and>
        build_prompt (with_field ''address'' (JStr ''12 Ocean Drive'') untyped_request) = Inr p)"
proof -
  have "get untyped_request ''amenities'' = JArr []"
    by (simp add: untyped_request_def)
  then obtain p where p: "build_prompt untyped_request = Inr p"
    using build_prompt_returns by blast
  from prompt_embeds_fields [OF p, of "JStr ''12 Ocean Drive''"] show ?thesis
    by (simp add: p) (simp add: untyped_request_def array_join_def)
qed

end
